theory Spec2Isabelle
  imports Complex_Main "HOL-Library.AList" "HOL-Library.Char_ord" "HOL-Library.List_Lexorder"
    "HOL-Library.Multiset"
begin

section \<open>Exceptions\<close>

text \<open>
  Every \<^verbatim>\<open>raise\<close> of the Python sources is a value of \<open>exc\<close>. The project's
  \<^verbatim>\<open>CustomException\<close> takes a message and, in the pipeline stages, the exception it
  wraps; the other constructors stand for the built-in exceptions the libraries raise
  and carry the text that \<^verbatim>\<open>str(e)\<close> shows.
\<close>

datatype exc =
    CustomException string "exc option"
  | ValueError string
  | KeyError string
  | TypeError string
  | IndexError string
  | LibraryError string

section \<open>Data model of the offline pipeline (src/data\_processing.py)\<close>

text \<open>
  A pandas column is either numeric or of object dtype (the label column). Numeric
  cells are finite, non-null numbers (the data model's invariant for every record) and
  are modelled by exact rationals: rounding of IEEE doubles is not modelled. A
  DataFrame is its row labels (the index that \<^verbatim>\<open>read_csv\<close> numbers from 0, and
  that a split carries along) and its named columns; a Series is one named column
  with its row labels. Calls to the logger are left out of the model of this module.
\<close>

datatype column = Num "rat list" | Obj "string list"

record dataframe =
  row_labels :: "nat list"
  cols :: "(string \<times> column) list"

record series =
  s_labels :: "nat list"
  s_name :: string
  s_values :: column

record DataProcessing =
  file_path :: string
  df :: "dataframe option"
  processed_data_path :: string

subsection \<open>Quartiles and median\<close>




subsection \<open>handle\_outliers\<close>






subsection \<open>split\_data\<close>

text \<open>
  What the stage persists, and the world it runs in: the files written by
  \<^verbatim>\<open>joblib.dump\<close> and \<^verbatim>\<open>savefig\<close>, the state of numpy's global random generator
  (the one \<^verbatim>\<open>train_test_split\<close> draws from when it is given no seed) and the lines
  the evaluator logs.
\<close>

record figure =
  matrix :: "nat list list"
  xticklabels :: "string list"
  yticklabels :: "string list"
  title :: string
  xlabel :: string
  ylabel :: string

datatype artifact = Frame dataframe | Series series | Figure figure

datatype level = INFO | ERROR

record 'r world =
  fs :: "string \<Rightarrow> artifact option"
  global_rng :: 'r
  log :: "(level \<times> string) list"

definition os_path_join :: "string \<Rightarrow> string \<Rightarrow> string" where
  "os_path_join a b =
     (if a = [] then b
      else if last a = CHR ''/'' then a @ b
      else a @ ''/'' @ b)"

definition joblib_dump :: "artifact \<Rightarrow> string \<Rightarrow> 'r world \<Rightarrow> 'r world" where
  "joblib_dump obj path w = w\<lparr>fs := (fs w)(path \<mapsto> obj)\<rparr>"

definition init_DataProcessing :: "string \<Rightarrow> DataProcessing" where
  "init_DataProcessing path =
     \<lparr>file_path = path, df = None, processed_data_path = ''artifacts/processed''\<rparr>"

text \<open>Positional selection of rows (\<^verbatim>\<open>iloc\<close>) and selection of columns by name.\<close>

definition col_take :: "nat list \<Rightarrow> column \<Rightarrow> column" where
  "col_take idx c =
     (case c of Num xs \<Rightarrow> Num (map (\<lambda>i. xs ! i) idx)
              | Obj xs \<Rightarrow> Obj (map (\<lambda>i. xs ! i) idx))"

definition iloc :: "dataframe \<Rightarrow> nat list \<Rightarrow> dataframe" where
  "iloc d idx =
     \<lparr>row_labels = map (\<lambda>i. row_labels d ! i) idx,
      cols = map (\<lambda>(k, c). (k, col_take idx c)) (cols d)\<rparr>"

definition s_iloc :: "series \<Rightarrow> nat list \<Rightarrow> series" where
  "s_iloc s idx =
     \<lparr>s_labels = map (\<lambda>i. s_labels s ! i) idx,
      s_name = s_name s,
      s_values = col_take idx (s_values s)\<rparr>"

fun lookup_all :: "(string \<times> column) list \<Rightarrow> string list \<Rightarrow> exc + (string \<times> column) list" where
  "lookup_all cs [] = Inr []"
| "lookup_all cs (k # ks) =
     (case map_of cs k of
        None \<Rightarrow> Inl (KeyError k)
      | Some c \<Rightarrow>
          (case lookup_all cs ks of
             Inl e \<Rightarrow> Inl e
           | Inr rest \<Rightarrow> Inr ((k, c) # rest)))"

definition select_columns :: "dataframe \<Rightarrow> string list \<Rightarrow> exc + dataframe" where
  "select_columns d names =
     (case lookup_all (cols d) names of
        Inl e \<Rightarrow> Inl e
      | Inr cs \<Rightarrow> Inr \<lparr>row_labels = row_labels d, cols = cs\<rparr>)"

definition select_series :: "dataframe \<Rightarrow> string \<Rightarrow> exc + series" where
  "select_series d name =
     (case map_of (cols d) name of
        None \<Rightarrow> Inl (KeyError name)
      | Some c \<Rightarrow> Inr \<lparr>s_labels = row_labels d, s_name = name, s_values = c\<rparr>)"

text \<open>
  scikit-learn's \<^verbatim>\<open>train_test_split\<close> with a fractional \<^verbatim>\<open>test_size\<close> and no
  \<^verbatim>\<open>train_size\<close>: the test set gets \<open>ceil (test_size * n)\<close> rows and the train set the
  rest; an empty train set is refused. The rows are drawn by one call of
  \<^verbatim>\<open>permutation\<close> on the generator that \<^verbatim>\<open>check_random_state\<close> returns: a fresh
  generator seeded with \<^verbatim>\<open>random_state\<close> when it is an integer, numpy's global one
  when it is \<^verbatim>\<open>None\<close>. The generator is a parameter of the model: \<open>RandomState\<close>
  seeds one and \<open>permutation\<close> draws a permutation of \<open>0..<n\<close> and advances it.
\<close>

definition validate_shuffle_split :: "nat \<Rightarrow> rat \<Rightarrow> exc + (nat \<times> nat)" where
  "validate_shuffle_split n_samples test_size =
     (if test_size \<le> 0 \<or> test_size \<ge> 1
      then Inl (ValueError ''test_size should be in the (0, 1) range'')
      else let n_test = nat \<lceil>test_size * of_nat n_samples\<rceil>;
               n_train = n_samples - n_test
           in if n_train = 0
              then Inl (ValueError ''the resulting train set will be empty'')
              else Inr (n_train, n_test))"

definition check_random_state ::
  "(int \<Rightarrow> 'r) \<Rightarrow> ('r \<Rightarrow> nat \<Rightarrow> nat list \<times> 'r) \<Rightarrow> 'r \<Rightarrow> int option \<Rightarrow> nat \<Rightarrow> nat list \<times> 'r" where
  "check_random_state RandomState permutation g random_state n =
     (case random_state of
        None \<Rightarrow> permutation g n
      | Some seed \<Rightarrow> (fst (permutation (RandomState seed) n), g))"

definition train_test_split ::
  "(int \<Rightarrow> 'r) \<Rightarrow> ('r \<Rightarrow> nat \<Rightarrow> nat list \<times> 'r) \<Rightarrow> 'r \<Rightarrow> dataframe \<Rightarrow> series \<Rightarrow> rat \<Rightarrow>
     int option \<Rightarrow> (exc + (dataframe \<times> dataframe \<times> series \<times> series)) \<times> 'r" where
  "train_test_split RandomState permutation g X Y test_size random_state =
     (let n_samples = length (row_labels X) in
      if length (s_labels Y) \<noteq> n_samples
      then (Inl (ValueError ''inconsistent numbers of samples''), g)
      else
        (case validate_shuffle_split n_samples test_size of
           Inl e \<Rightarrow> (Inl e, g)
         | Inr (n_train, n_test) \<Rightarrow>
             (let (perm, g') = check_random_state RandomState permutation g random_state n_samples;
                  ind_test = take n_test perm;
                  ind_train = take n_train (drop n_test perm)
              in (Inr (iloc X ind_train, iloc X ind_test, s_iloc Y ind_train, s_iloc Y ind_test),
                  g'))))"

definition split_data ::
  "(int \<Rightarrow> 'r) \<Rightarrow> ('r \<Rightarrow> nat \<Rightarrow> nat list \<times> 'r) \<Rightarrow> 'r world \<Rightarrow> DataProcessing \<Rightarrow>
     (exc + unit) \<times> 'r world" where
  "split_data RandomState permutation w self =
     (case df self of
        None \<Rightarrow>
          (Inl (CustomException ''Failed to split data''
                  (Some (TypeError ''NoneType object is not subscriptable''))), w)
      | Some d \<Rightarrow>
          (case select_columns d
                  [''SepalLengthCm'', ''SepalWidthCm'', ''PetalLengthCm'', ''PetalWidthCm''] of
             Inl e \<Rightarrow> (Inl (CustomException ''Failed to split data'' (Some e)), w)
           | Inr X \<Rightarrow>
               (case select_series d ''Species'' of
                  Inl e \<Rightarrow> (Inl (CustomException ''Failed to split data'' (Some e)), w)
                | Inr Y \<Rightarrow>
                    (case train_test_split RandomState permutation (global_rng w) X Y (1 / 5)
                            (Some 42) of
                       (Inl e, g) \<Rightarrow>
                         (Inl (CustomException ''Failed to split data'' (Some e)),
                          w\<lparr>global_rng := g\<rparr>)
                     | (Inr (X_train, X_test, y_train, y_test), g) \<Rightarrow>
                         (Inr (),
                          joblib_dump (Series y_test)
                            (os_path_join (processed_data_path self) ''y_test.pkl'')
                            (joblib_dump (Series y_train)
                               (os_path_join (processed_data_path self) ''y_train.pkl'')
                               (joblib_dump (Frame X_test)
                                  (os_path_join (processed_data_path self) ''X_test.pkl'')
                                  (joblib_dump (Frame X_train)
                                     (os_path_join (processed_data_path self) ''X_train.pkl'')
                                     (w\<lparr>global_rng := g\<rparr>)))))))))"

section \<open>Serving (app.py)\<close>

subsection \<open>Floats and \<^verbatim>\<open>float(value)\<close>\<close>

text \<open>
  A Python float is a finite number, an infinity or NaN. A finite float is modelled
  by the rational it denotes (rounding to the nearest double, overflow to an infinity
  and the sign of zero are not modelled). Every comparison with NaN is false.
\<close>

datatype pyfloat = Finite rat | PosInf | NegInf | NaN

fun fl_less :: "pyfloat \<Rightarrow> pyfloat \<Rightarrow> bool" where
  "fl_less NaN y = False"
| "fl_less x NaN = False"
| "fl_less (Finite a) (Finite b) = (a < b)"
| "fl_less (Finite a) PosInf = True"
| "fl_less (Finite a) NegInf = False"
| "fl_less NegInf NegInf = False"
| "fl_less NegInf y = True"
| "fl_less PosInf y = False"

text \<open>
  \<^verbatim>\<open>float(s)\<close> on a string of ASCII characters: surrounding whitespace is stripped,
  underscores are accepted between digits only, and what is left is a sign followed
  by \<^verbatim>\<open>inf\<close>, \<^verbatim>\<open>infinity\<close> or \<^verbatim>\<open>nan\<close> in any casing, or by a decimal number with an
  optional fraction and exponent. Anything else raises \<^verbatim>\<open>ValueError\<close>, modelled by
  \<open>None\<close>.
\<close>

definition is_space :: "char \<Rightarrow> bool" where
  "is_space c =
     (c \<in> set [CHR 0x09, CHR 0x0A, CHR 0x0B, CHR 0x0C, CHR 0x0D,
                CHR 0x1C, CHR 0x1D, CHR 0x1E, CHR 0x1F, CHR '' ''])"

definition is_digit :: "char \<Rightarrow> bool" where
  "is_digit c = (c \<in> set ''0123456789'')"

definition digit_val :: "char \<Rightarrow> nat" where
  "digit_val c = of_char c - 48"

definition digits_val :: "string \<Rightarrow> nat" where
  "digits_val ds = foldl (\<lambda>acc c. 10 * acc + digit_val c) 0 ds"

definition to_lower :: "char \<Rightarrow> char" where
  "to_lower c =
     (if c \<in> set ''ABCDEFGHIJKLMNOPQRSTUVWXYZ'' then char_of (of_char c + (32 :: nat)) else c)"

definition strip_ws :: "string \<Rightarrow> string" where
  "strip_ws s = rev (dropWhile is_space (rev (dropWhile is_space s)))"

fun drop_underscores :: "char option \<Rightarrow> string \<Rightarrow> string option" where
  "drop_underscores prev [] = (if prev = Some CHR ''_'' then None else Some [])"
| "drop_underscores prev (c # cs) =
     (if c = CHR ''_''
      then (if (case prev of Some p \<Rightarrow> is_digit p | None \<Rightarrow> False)
            then drop_underscores (Some c) cs else None)
      else if prev = Some CHR ''_'' \<and> \<not> is_digit c then None
      else map_option ((#) c) (drop_underscores (Some c) cs))"

definition split_sign :: "string \<Rightarrow> bool \<times> string" where
  "split_sign s =
     (case s of
        [] \<Rightarrow> (False, [])
      | c # r \<Rightarrow>
          if c = CHR ''-'' then (True, r)
          else if c = CHR ''+'' then (False, r)
          else (False, s))"

definition parse_inf_or_nan :: "string \<Rightarrow> pyfloat option" where
  "parse_inf_or_nan s =
     (let (negate, r) = split_sign s; l = map to_lower r
      in if l = ''inf'' \<or> l = ''infinity'' then Some (if negate then NegInf else PosInf)
         else if l = ''nan'' then Some NaN
         else None)"

definition parse_exponent :: "string \<Rightarrow> int option" where
  "parse_exponent s =
     (case s of
        [] \<Rightarrow> Some 0
      | c # t \<Rightarrow>
          if c = CHR ''e'' \<or> c = CHR ''E''
          then (let (negate, ds) = split_sign t
                in if ds \<noteq> [] \<and> list_all is_digit ds
                   then Some ((if negate then - 1 else 1) * int (digits_val ds))
                   else None)
          else None)"

definition pow10 :: "int \<Rightarrow> rat" where
  "pow10 e = (if 0 \<le> e then 10 ^ nat e else 1 / 10 ^ nat (- e))"

definition parse_decimal :: "string \<Rightarrow> rat option" where
  "parse_decimal s =
     (let (negate, r) = split_sign s;
          ip = takeWhile is_digit r;
          r1 = dropWhile is_digit r;
          (fp, r2) = (case r1 of
                        [] \<Rightarrow> ([], [])
                      | c # t \<Rightarrow>
                          if c = CHR ''.'' then (takeWhile is_digit t, dropWhile is_digit t)
                          else ([], r1))
      in if ip = [] \<and> fp = [] then None
         else (case parse_exponent r2 of
                 None \<Rightarrow> None
               | Some e \<Rightarrow>
                   Some ((if negate then - 1 else 1) * of_nat (digits_val (ip @ fp)) *
                         pow10 (e - int (length fp)))))"

definition py_float :: "string \<Rightarrow> pyfloat option" where
  "py_float value =
     (case drop_underscores None (strip_ws value) of
        None \<Rightarrow> None
      | Some u \<Rightarrow>
          (case parse_inf_or_nan u of
             Some x \<Rightarrow> Some x
           | None \<Rightarrow> map_option Finite (parse_decimal u)))"

subsection \<open>The feature configuration\<close>

record feature_conf =
  label :: string
  min_val :: rat
  max_val :: rat
  step :: rat
  mean :: rat
  iqr :: "rat \<times> rat"
  suggested :: "rat list"

definition IRIS_FEATURES :: "(string \<times> feature_conf) list" where
  "IRIS_FEATURES =
     [(''SepalLengthCm'',
       \<lparr>label = ''Sepal Length (cm)'',
        min_val = 43 / 10, max_val = 79 / 10, step = 1 / 10,
        mean = 584 / 100, iqr = (510 / 100, 640 / 100),
        suggested = [51 / 10, 58 / 10, 64 / 10]\<rparr>),
      (''SepalWidthCm'',
       \<lparr>label = ''Sepal Width (cm)'',
        min_val = 20 / 10, max_val = 44 / 10, step = 1 / 10,
        mean = 305 / 100, iqr = (280 / 100, 330 / 100),
        suggested = [28 / 10, 30 / 10, 33 / 10]\<rparr>),
      (''PetalLengthCm'',
       \<lparr>label = ''Petal Length (cm)'',
        min_val = 10 / 10, max_val = 69 / 10, step = 1 / 10,
        mean = 376 / 100, iqr = (160 / 100, 510 / 100),
        suggested = [16 / 10, 38 / 10, 51 / 10]\<rparr>),
      (''PetalWidthCm'',
       \<lparr>label = ''Petal Width (cm)'',
        min_val = 1 / 10, max_val = 25 / 10, step = 1 / 10,
        mean = 120 / 100, iqr = (30 / 100, 180 / 100),
        suggested = [3 / 10, 12 / 10, 18 / 10]\<rparr>)]"

definition DEFAULTS :: "(string \<times> pyfloat) list" where
  "DEFAULTS = map (\<lambda>(k, v). (k, Finite (mean v))) IRIS_FEATURES"

text \<open>
  The module's globals as a request sees them. \<open>module_load\<close> is their state once the
  module has been imported; a request handler gets the state and hands it back.
\<close>

record app_globals =
  g_features :: "(string \<times> feature_conf) list"
  g_defaults :: "(string \<times> pyfloat) list"

definition module_load :: app_globals where
  "module_load = \<lparr>g_features = IRIS_FEATURES, g_defaults = DEFAULTS\<rparr>"

subsection \<open>\_parse\_and\_validate and the route\<close>

text \<open>
  \<^verbatim>\<open>str(e)\<close>: the message of the exception. For \<^verbatim>\<open>CustomException\<close> this is the class
  that app.py itself defines when the project's module cannot be imported, a plain
  \<^verbatim>\<open>Exception\<close> whose text is its one argument.
\<close>

fun str_exc :: "exc \<Rightarrow> string" where
  "str_exc (CustomException m c) = m"
| "str_exc (ValueError m) = m"
| "str_exc (KeyError k) = [CHR 0x27] @ k @ [CHR 0x27]"
| "str_exc (TypeError m) = m"
| "str_exc (IndexError m) = m"
| "str_exc (LibraryError m) = m"

text \<open>
  \<open>float_str\<close> stands for Python's formatting of a float inside an f-string.
\<close>

definition parse_and_validate ::
  "(pyfloat \<Rightarrow> string) \<Rightarrow> (string \<times> feature_conf) list \<Rightarrow> string \<Rightarrow> string \<Rightarrow> exc + pyfloat" where
  "parse_and_validate float_str feats name value =
     (case map_of feats name of
        None \<Rightarrow> Inl (KeyError name)
      | Some conf \<Rightarrow>
          (case py_float value of
             None \<Rightarrow>
               Inl (CustomException (label conf @ '': value must be numeric.'')
                      (Some (ValueError ''could not convert string to float'')))
           | Some x \<Rightarrow>
               if fl_less x (Finite (min_val conf)) \<or> fl_less (Finite (max_val conf)) x
               then Inl (CustomException
                           (label conf @ '': '' @ float_str x @ '' is out of range ['' @
                            float_str (Finite (min_val conf)) @ '', '' @
                            float_str (Finite (max_val conf)) @ ''].'')
                           None)
               else Inr x))"

datatype http_method = GET | POST

text \<open>A request: \<^verbatim>\<open>request.method\<close> and \<^verbatim>\<open>request.form\<close>.\<close>

record request =
  req_method :: http_method
  form :: "(string \<times> string) list"

definition form_get :: "(string \<times> string) list \<Rightarrow> string \<Rightarrow> string \<Rightarrow> string" where
  "form_get f k dflt = (case map_of f k of None \<Rightarrow> dflt | Some v \<Rightarrow> v)"

text \<open>
  What \<^verbatim>\<open>index\<close> hands to \<^verbatim>\<open>render_template\<close>, together with the calls it made to
  \<^verbatim>\<open>model.predict\<close> and the globals after the request. The model is a parameter: its
  \<^verbatim>\<open>predict\<close> takes the rows and returns the labels or raises. Rendering the
  template and the calls to the logger are left out.
\<close>

record template_context =
  prediction :: "string option"
  error :: "string option"
  features :: "(string \<times> feature_conf) list"
  inputs :: "(string \<times> pyfloat) list"

record handled =
  rendered :: template_context
  predict_calls :: "pyfloat list list list"
  globals_after :: app_globals

definition failed ::
  "app_globals \<Rightarrow> (string \<times> pyfloat) list \<Rightarrow> pyfloat list list list \<Rightarrow> exc \<Rightarrow> handled" where
  "failed g ins calls e =
     \<lparr>rendered = \<lparr>prediction = None, error = Some (str_exc e),
                  features = g_features g, inputs = ins\<rparr>,
      predict_calls = calls, globals_after = g\<rparr>"

definition index ::
  "(pyfloat \<Rightarrow> string) \<Rightarrow> (pyfloat list list \<Rightarrow> exc + string list) \<Rightarrow> app_globals \<Rightarrow> request \<Rightarrow>
     handled" where
  "index float_str predict g req =
     (if req_method req = POST then
        (case parse_and_validate float_str (g_features g) ''SepalLengthCm''
                (form_get (form req) ''SepalLengthCm'' []) of
           Inl e \<Rightarrow> failed g (g_defaults g) [] e
         | Inr sl \<Rightarrow>
        (case parse_and_validate float_str (g_features g) ''SepalWidthCm''
                (form_get (form req) ''SepalWidthCm'' []) of
           Inl e \<Rightarrow> failed g (g_defaults g) [] e
         | Inr sw \<Rightarrow>
        (case parse_and_validate float_str (g_features g) ''PetalLengthCm''
                (form_get (form req) ''PetalLengthCm'' []) of
           Inl e \<Rightarrow> failed g (g_defaults g) [] e
         | Inr pl \<Rightarrow>
        (case parse_and_validate float_str (g_features g) ''PetalWidthCm''
                (form_get (form req) ''PetalWidthCm'' []) of
           Inl e \<Rightarrow> failed g (g_defaults g) [] e
         | Inr pw \<Rightarrow>
             (let ins = [(''SepalLengthCm'', sl), (''SepalWidthCm'', sw),
                         (''PetalLengthCm'', pl), (''PetalWidthCm'', pw)];
                  data = [[sl, sw, pl, pw]]
              in (case predict data of
                    Inl e \<Rightarrow> failed g ins [data] e
                  | Inr [] \<Rightarrow>
                      failed g ins [data] (IndexError ''index 0 is out of bounds'')
                  | Inr (y # ys) \<Rightarrow>
                      \<lparr>rendered = \<lparr>prediction = Some y, error = None,
                                   features = g_features g, inputs = ins\<rparr>,
                       predict_calls = [data], globals_after = g\<rparr>))))))
      else
        \<lparr>rendered = \<lparr>prediction = None, error = None,
                     features = g_features g, inputs = g_defaults g\<rparr>,
         predict_calls = [], globals_after = g\<rparr>)"

text \<open>
  The order in which \<^verbatim>\<open>index\<close> validates the fields, the outcome of validating each
  field on its own, and the first failure among a list of outcomes.
\<close>

definition field_order :: "string list" where
  "field_order = [''SepalLengthCm'', ''SepalWidthCm'', ''PetalLengthCm'', ''PetalWidthCm'']"

definition validated ::
  "(pyfloat \<Rightarrow> string) \<Rightarrow> app_globals \<Rightarrow> request \<Rightarrow> (exc + pyfloat) list" where
  "validated float_str g req =
     map (\<lambda>n. parse_and_validate float_str (g_features g) n (form_get (form req) n []))
       field_order"

fun first_failure :: "(exc + pyfloat) list \<Rightarrow> exc option" where
  "first_failure [] = None"
| "first_failure (Inl e # rs) = Some e"
| "first_failure (Inr x # rs) = first_failure rs"

section \<open>Evaluation (src/model\_training.py)\<close>

text \<open>
  The trainer object: its paths and its classifier, of which the model keeps the
  \<^verbatim>\<open>predict\<close> method (rows in, labels out, or an exception). The four scoring
  functions of scikit-learn and the \<^verbatim>\<open>:.4f\<close> formatting are parameters. The label
  vector \<^verbatim>\<open>y_test\<close> is the list of its labels.
\<close>

record ModelTraining =
  mt_processed_data_path :: string
  model_path :: string
  model :: "dataframe \<Rightarrow> exc + string list"

record sklearn_metrics =
  accuracy_score :: "string list \<Rightarrow> string list \<Rightarrow> exc + rat"
  precision_score :: "string list \<Rightarrow> string list \<Rightarrow> exc + rat"
  recall_score :: "string list \<Rightarrow> string list \<Rightarrow> exc + rat"
  f1_score :: "string list \<Rightarrow> string list \<Rightarrow> exc + rat"

definition init_ModelTraining :: "(dataframe \<Rightarrow> exc + string list) \<Rightarrow> ModelTraining" where
  "init_ModelTraining clf =
     \<lparr>mt_processed_data_path = ''artifacts/processed'',
      model_path = ''artifacts/models'',
      model = clf\<rparr>"

text \<open>
  \<^verbatim>\<open>np.unique\<close> returns the distinct values in sorted order.
  \<^verbatim>\<open>confusion_matrix(y_true, y_pred)\<close>, given no \<^verbatim>\<open>labels\<close>, orders the classes as the
  sorted distinct labels that occur in \<^verbatim>\<open>y_true\<close> or in \<^verbatim>\<open>y_pred\<close>; its entry in row
  \<open>i\<close> and column \<open>j\<close> counts the samples whose true label is class \<open>i\<close> and whose
  predicted label is class \<open>j\<close>.
\<close>

definition np_unique :: "string list \<Rightarrow> string list" where
  "np_unique xs = sort (remdups xs)"

definition unique_labels :: "string list \<Rightarrow> string list \<Rightarrow> string list" where
  "unique_labels y_true y_pred = np_unique (y_true @ y_pred)"

definition confusion_matrix :: "string list \<Rightarrow> string list \<Rightarrow> exc + nat list list" where
  "confusion_matrix y_true y_pred =
     (if length y_true \<noteq> length y_pred
      then Inl (ValueError ''inconsistent numbers of samples'')
      else let labels = unique_labels y_true y_pred
           in Inr (map (\<lambda>a. map (\<lambda>p. length (filter (\<lambda>(t, q). t = a \<and> q = p)
                                                   (zip y_true y_pred))) labels) labels))"

definition eval_failed :: "'r world \<Rightarrow> exc \<Rightarrow> (exc + unit) \<times> 'r world" where
  "eval_failed w e =
     (Inl (CustomException ''Failed to evaluate model'' (Some e)),
      w\<lparr>log := log w @ [(ERROR, ''Error during model evaluation: '' @ str_exc e)]\<rparr>)"

definition evaluate_model ::
  "sklearn_metrics \<Rightarrow> (rat \<Rightarrow> string) \<Rightarrow> 'r world \<Rightarrow> ModelTraining \<Rightarrow> dataframe \<Rightarrow> string list \<Rightarrow>
     (exc + unit) \<times> 'r world" where
  "evaluate_model sk fmt4 w self X_test y_test =
     (case model self X_test of
        Inl e \<Rightarrow> eval_failed w e
      | Inr y_pred \<Rightarrow>
     (case accuracy_score sk y_test y_pred of
        Inl e \<Rightarrow> eval_failed w e
      | Inr accuracy \<Rightarrow>
     (case precision_score sk y_test y_pred of
        Inl e \<Rightarrow> eval_failed w e
      | Inr precision \<Rightarrow>
     (case recall_score sk y_test y_pred of
        Inl e \<Rightarrow> eval_failed w e
      | Inr recall \<Rightarrow>
     (case f1_score sk y_test y_pred of
        Inl e \<Rightarrow> eval_failed w e
      | Inr f1 \<Rightarrow>
          (let w1 = w\<lparr>log := log w @
                      [(INFO, ''Accuracy Score  : '' @ fmt4 accuracy),
                       (INFO, ''Precision Score : '' @ fmt4 precision),
                       (INFO, ''Recall Score    : '' @ fmt4 recall),
                       (INFO, ''F1 Score        : '' @ fmt4 f1)]\<rparr>
           in (case confusion_matrix y_test y_pred of
                 Inl e \<Rightarrow> eval_failed w1 e
               | Inr cm \<Rightarrow>
                   (let fig = \<lparr>matrix = cm,
                               xticklabels = np_unique y_test,
                               yticklabels = np_unique y_test,
                               title = ''Confusion Matrix'',
                               xlabel = ''Predicted Label'',
                               ylabel = ''Actual Label''\<rparr>;
                        confusion_matrix_path =
                          os_path_join (model_path self) ''confusion_matrix.png'';
                        w2 = w1\<lparr>fs := (fs w1)(confusion_matrix_path \<mapsto> Figure fig)\<rparr>
                    in (Inr (),
                        w2\<lparr>log := log w2 @
                             [(INFO, ''Confusion matrix saved successfully.'')]\<rparr>)))))))))"

section \<open>Example data\<close>

text \<open>A small frame with one far-out cell in \<^verbatim>\<open>SepalWidthCm\<close>, used to run the stages.\<close>

definition example_frame :: dataframe where
  "example_frame =
     \<lparr>row_labels = [0, 1, 2, 3],
      cols = [(''SepalLengthCm'', Num [51 / 10, 49 / 10, 7, 63 / 10]),
              (''SepalWidthCm'', Num [1, 2, 3, 100]),
              (''PetalLengthCm'', Num [14 / 10, 14 / 10, 47 / 10, 6]),
              (''PetalWidthCm'', Num [2 / 10, 2 / 10, 14 / 10, 25 / 10]),
              (''Species'', Obj [''Iris-setosa'', ''Iris-setosa'', ''Iris-versicolor'',
                                 ''Iris-virginica''])]\<rparr>"

definition example_dp :: DataProcessing where
  "example_dp = (init_DataProcessing ''artifacts/raw/data.csv'')\<lparr>df := Some example_frame\<rparr>"

text \<open>
  A stand-in for numpy's generator, used to run \<open>split_data\<close> on examples: the state is
  a counter, a seed sets it, and a draw rotates \<open>0..<n\<close> by it.
\<close>

definition example_RandomState :: "int \<Rightarrow> nat" where
  "example_RandomState seed = nat seed"

definition example_permutation :: "nat \<Rightarrow> nat \<Rightarrow> nat list \<times> nat" where
  "example_permutation g n = (rotate g [0..<n], g + 1)"

definition example_world :: "nat world" where
  "example_world = \<lparr>fs = Map.empty, global_rng = 0, log = []\<rparr>"

definition one_row_frame :: dataframe where
  "one_row_frame =
     \<lparr>row_labels = [0],
      cols = [(''SepalLengthCm'', Num [51 / 10]),
              (''SepalWidthCm'', Num [35 / 10]),
              (''PetalLengthCm'', Num [14 / 10]),
              (''PetalWidthCm'', Num [2 / 10]),
              (''Species'', Obj [''Iris-setosa''])]\<rparr>"


text \<open>A second world: another generator state and a stale file from an earlier run.\<close>

definition stale_world :: "nat world" where
  "stale_world =
     \<lparr>fs = [''artifacts/processed/X_test.pkl'' \<mapsto> Frame one_row_frame],
      global_rng = 7, log = []\<rparr>"

text \<open>
  Stand-ins for the parameters of the serving model, used to run requests: the text
  of the floats that the examples print, and a classifier that answers every row
  with the same label.
\<close>

definition example_float_str :: "pyfloat \<Rightarrow> string" where
  "example_float_str x =
     (if x = Finite (43 / 10) then ''4.3''
      else if x = Finite (79 / 10) then ''7.9''
      else if x = Finite (42 / 10) then ''4.2''
      else if x = Finite 100 then ''100.0''
      else if x = NaN then ''nan''
      else ''?'')"

definition example_predict :: "pyfloat list list \<Rightarrow> exc + string list" where
  "example_predict rows = Inr (map (\<lambda>r. ''Iris-setosa'') rows)"


definition request_of :: "string \<Rightarrow> string \<Rightarrow> string \<Rightarrow> string \<Rightarrow> request" where
  "request_of sl sw pl pw =
     \<lparr>req_method = POST,
      form = [(''SepalLengthCm'', sl), (''SepalWidthCm'', sw),
              (''PetalLengthCm'', pl), (''PetalWidthCm'', pw)]\<rparr>"

text \<open>
  Stand-ins for the parameters of the evaluator: a classifier that answers the two
  test rows with a label of the first and a label that the test set does not have,
  scores that are all zero, and a formatter.
\<close>

definition example_clf :: "dataframe \<Rightarrow> exc + string list" where
  "example_clf X = Inr [''Iris-setosa'', ''Iris-versicolor'']"

definition example_metrics :: sklearn_metrics where
  "example_metrics =
     \<lparr>accuracy_score = (\<lambda>t p. Inr 0), precision_score = (\<lambda>t p. Inr 0),
      recall_score = (\<lambda>t p. Inr 0), f1_score = (\<lambda>t p. Inr 0)\<rparr>"

definition example_fmt4 :: "rat \<Rightarrow> string" where
  "example_fmt4 r = ''0.0000''"

definition two_row_test_frame :: dataframe where
  "two_row_test_frame =
     \<lparr>row_labels = [0, 1],
      cols = [(''SepalLengthCm'', Num [51 / 10, 63 / 10]),
              (''SepalWidthCm'', Num [35 / 10, 33 / 10]),
              (''PetalLengthCm'', Num [14 / 10, 6]),
              (''PetalWidthCm'', Num [2 / 10, 25 / 10])]\<rparr>"

section \<open>Properties of the outlier normalizer\<close>

















lemma os_path_join_inject: "os_path_join a b = os_path_join a c \<longleftrightarrow> b = c"
  by (simp add: os_path_join_def)

lemma split_data_rng_independent:
  "fst (train_test_split R P g1 X Y ts (Some seed)) = fst (train_test_split R P g2 X Y ts (Some seed))"
  by (simp add: train_test_split_def check_random_state_def Let_def split: sum.splits prod.splits)

text \<open>
  Claim C6. Two runs of the Splitter on the same Dataset, from whatever state of the
  global random generator and whatever files an earlier run left, end alike: both
  fail with the same error or both succeed, and after a success each of the four
  persisted artifacts is there and is the same in both runs, so the same rows are in
  train and in test. The split draws from a generator seeded with 42, never from the
  global one.
\<close>

theorem split_data_deterministic:
  "fst (split_data R P w1 self) = fst (split_data R P w2 self) \<and>
   (fst (split_data R P w1 self) = Inr () \<longrightarrow>
      (\<forall>name \<in> set [''X_train.pkl'', ''X_test.pkl'', ''y_train.pkl'', ''y_test.pkl''].
         fs (snd (split_data R P w1 self)) (os_path_join (processed_data_path self) name) \<noteq> None \<and>
         fs (snd (split_data R P w1 self)) (os_path_join (processed_data_path self) name) =
         fs (snd (split_data R P w2 self)) (os_path_join (processed_data_path self) name)))"
proof -
  have tts: "fst (train_test_split R P (global_rng w1) X Y (1 / 5) (Some 42)) =
             fst (train_test_split R P (global_rng w2) X Y (1 / 5) (Some 42))" for X Y
    by (rule split_data_rng_independent)
  show ?thesis
  proof (cases "df self")
    case None
    then show ?thesis by (simp add: split_data_def)
  next
    case (Some d)
    show ?thesis
    proof (cases "select_columns d [''SepalLengthCm'', ''SepalWidthCm'', ''PetalLengthCm'', ''PetalWidthCm'']")
      case (Inl e)
      with Some show ?thesis by (simp add: split_data_def)
    next
      case X: (Inr X)
      show ?thesis
      proof (cases "select_series d ''Species''")
        case (Inl e)
        with Some X show ?thesis by (simp add: split_data_def)
      next
        case Y: (Inr Y)
        obtain r1 g1 where t1: "train_test_split R P (global_rng w1) X Y (1 / 5) (Some 42) = (r1, g1)"
          by (cases "train_test_split R P (global_rng w1) X Y (1 / 5) (Some 42)")
        obtain r2 g2 where t2: "train_test_split R P (global_rng w2) X Y (1 / 5) (Some 42) = (r2, g2)"
          by (cases "train_test_split R P (global_rng w2) X Y (1 / 5) (Some 42)")
        have r: "r1 = r2" using tts[of X Y] t1 t2 by simp
        show ?thesis
        proof (cases r1)
          case (Inl e)
          have "train_test_split R P (global_rng w1) X Y (1 / 5) (Some 42) = (Inl e, g1)"
            and "train_test_split R P (global_rng w2) X Y (1 / 5) (Some 42) = (Inl e, g2)"
            using t1 t2 r Inl by simp_all
          with Some X Y show ?thesis by (simp add: split_data_def)
        next
          case (Inr parts)
          obtain a b c d' where parts: "parts = (a, b, c, d')" by (cases parts)
          have "train_test_split R P (global_rng w1) X Y (1 / 5) (Some 42) = (Inr (a, b, c, d'), g1)"
            and "train_test_split R P (global_rng w2) X Y (1 / 5) (Some 42) = (Inr (a, b, c, d'), g2)"
            using t1 t2 r Inr parts by simp_all
          with Some X Y show ?thesis
            by (simp add: split_data_def joblib_dump_def os_path_join_inject)
        qed
      qed
    qed
  qed
qed

lemma example_split_ok:
  "fst (split_data example_RandomState example_permutation example_world example_dp) = Inr ()"
  by code_simp

theorem split_data_deterministic_witness:
  "fst (split_data example_RandomState example_permutation example_world example_dp) = Inr () \<and>
   fst (split_data example_RandomState example_permutation stale_world example_dp) = Inr () \<and>
   fs (snd (split_data example_RandomState example_permutation example_world example_dp))
      ''artifacts/processed/X_test.pkl'' \<noteq> None \<and>
   fs (snd (split_data example_RandomState example_permutation example_world example_dp))
      ''artifacts/processed/X_test.pkl'' =
   fs (snd (split_data example_RandomState example_permutation stale_world example_dp))
      ''artifacts/processed/X_test.pkl''"
proof -
  have p: "os_path_join (processed_data_path example_dp) ''X_test.pkl'' =
             ''artifacts/processed/X_test.pkl''"
    by (simp add: example_dp_def init_DataProcessing_def os_path_join_def)
  note det = split_data_deterministic[of example_RandomState example_permutation
        example_world example_dp stale_world]
  from det have same: "fst (split_data example_RandomState example_permutation stale_world example_dp) = Inr ()"
    using example_split_ok by simp
  from det example_split_ok have files:
    "\<forall>name \<in> set [''X_train.pkl'', ''X_test.pkl'', ''y_train.pkl'', ''y_test.pkl''].
       fs (snd (split_data example_RandomState example_permutation example_world example_dp))
          (os_path_join (processed_data_path example_dp) name) \<noteq> None \<and>
       fs (snd (split_data example_RandomState example_permutation example_world example_dp))
          (os_path_join (processed_data_path example_dp) name) =
       fs (snd (split_data example_RandomState example_permutation stale_world example_dp))
          (os_path_join (processed_data_path example_dp) name)"
    by blast
  have "''X_test.pkl'' \<in> set [''X_train.pkl'', ''X_test.pkl'', ''y_train.pkl'', ''y_test.pkl'']"
    by simp
  with files have
    "fs (snd (split_data example_RandomState example_permutation example_world example_dp))
          (os_path_join (processed_data_path example_dp) ''X_test.pkl'') \<noteq> None \<and>
       fs (snd (split_data example_RandomState example_permutation example_world example_dp))
          (os_path_join (processed_data_path example_dp) ''X_test.pkl'') =
       fs (snd (split_data example_RandomState example_permutation stale_world example_dp))
          (os_path_join (processed_data_path example_dp) ''X_test.pkl'')"
    by (rule bspec)
  then show ?thesis unfolding p using example_split_ok same by blast
qed












lemma validated_unfold:
  "validated fstr g req =
     [parse_and_validate fstr (g_features g) ''SepalLengthCm'' (form_get (form req) ''SepalLengthCm'' []),
      parse_and_validate fstr (g_features g) ''SepalWidthCm'' (form_get (form req) ''SepalWidthCm'' []),
      parse_and_validate fstr (g_features g) ''PetalLengthCm'' (form_get (form req) ''PetalLengthCm'' []),
      parse_and_validate fstr (g_features g) ''PetalWidthCm'' (form_get (form req) ''PetalWidthCm'' [])]"
  by (simp add: validated_def field_order_def)


lemma index_all_valid:
  assumes "req_method req = POST" and "validated fstr g req = [Inr sl, Inr sw, Inr pl, Inr pw]"
  shows "index fstr predict g req =
           (case predict [[sl, sw, pl, pw]] of
              Inl e \<Rightarrow>
                failed g [(''SepalLengthCm'', sl), (''SepalWidthCm'', sw),
                          (''PetalLengthCm'', pl), (''PetalWidthCm'', pw)] [[[sl, sw, pl, pw]]] e
            | Inr [] \<Rightarrow>
                failed g [(''SepalLengthCm'', sl), (''SepalWidthCm'', sw),
                          (''PetalLengthCm'', pl), (''PetalWidthCm'', pw)] [[[sl, sw, pl, pw]]]
                  (IndexError ''index 0 is out of bounds'')
            | Inr (y # ys) \<Rightarrow>
                \<lparr>rendered = \<lparr>prediction = Some y, error = None, features = g_features g,
                             inputs = [(''SepalLengthCm'', sl), (''SepalWidthCm'', sw),
                                       (''PetalLengthCm'', pl), (''PetalWidthCm'', pw)]\<rparr>,
                 predict_calls = [[[sl, sw, pl, pw]]], globals_after = g\<rparr>)"
  using assms unfolding validated_unfold index_def
  by (simp add: Let_def)

lemma first_failure_None:
  "first_failure [a, b, c, d] = None \<Longrightarrow> \<exists>w x y z. [a, b, c, d] = [Inr w, Inr x, Inr y, Inr z]"
  by (cases a; cases b; cases c; cases d) simp_all

lemma index_globals_unchanged: "globals_after (index fstr predict g req) = g"
  unfolding index_def failed_def
  by (simp add: Let_def split: sum.splits list.splits)



lemma features_at_load: "g_features module_load = IRIS_FEATURES"
  by (simp add: module_load_def)








lemma field_order_index:
  assumes "name \<in> set field_order"
  shows "\<exists>i<4. validated fstr g req ! i =
           parse_and_validate fstr (g_features g) name (form_get (form req) name [])"
proof -
  from assms consider "name = ''SepalLengthCm''" | "name = ''SepalWidthCm''"
    | "name = ''PetalLengthCm''" | "name = ''PetalWidthCm''"
    by (auto simp: field_order_def)
  then show ?thesis
  proof cases
    case 1 then show ?thesis by (intro exI[of _ 0]) (simp add: validated_unfold)
  next
    case 2 then show ?thesis by (intro exI[of _ 1]) (simp add: validated_unfold)
  next
    case 3 then show ?thesis by (intro exI[of _ 2]) (simp add: validated_unfold)
  next
    case 4 then show ?thesis by (intro exI[of _ 3]) (simp add: validated_unfold)
  qed
qed




text \<open>
  Claim C9. The feature configuration that the module loads maps exactly the four
  features, in this order, to the bounds and means SepalLength [4.3, 7.9] mean 5.84,
  SepalWidth [2.0, 4.4] mean 3.05, PetalLength [1.0, 6.9] mean 3.76 and PetalWidth
  [0.1, 2.5] mean 1.20; and a request, whatever it posts and whatever the model does,
  leaves the module's globals as it found them.
\<close>

theorem iris_features_fixed:
  "map (\<lambda>(k, c). (k, min_val c, max_val c, mean c)) (g_features module_load) =
     [(''SepalLengthCm'', 43 / 10, 79 / 10, 584 / 100),
      (''SepalWidthCm'', 20 / 10, 44 / 10, 305 / 100),
      (''PetalLengthCm'', 10 / 10, 69 / 10, 376 / 100),
      (''PetalWidthCm'', 1 / 10, 25 / 10, 120 / 100)] \<and>
   globals_after (index fstr predict g req) = g"
  by (simp add: index_globals_unchanged module_load_def IRIS_FEATURES_def)

lemma to_lower_n_all: "\<forall>a. to_lower a = CHR ''n'' \<longrightarrow> a = CHR ''n'' \<or> a = CHR ''N''"
  by code_simp

lemma to_lower_a_all: "\<forall>a. to_lower a = CHR ''a'' \<longrightarrow> a = CHR ''a'' \<or> a = CHR ''A''"
  by code_simp

lemma to_lower_n: "to_lower a = CHR ''n'' \<Longrightarrow> a = CHR ''n'' \<or> a = CHR ''N''"
  using to_lower_n_all by blast

lemma to_lower_a: "to_lower a = CHR ''a'' \<Longrightarrow> a = CHR ''a'' \<or> a = CHR ''A''"
  using to_lower_a_all by blast

lemma nan_casings:
  assumes "map to_lower value = ''nan''"
  shows "value \<in> set [''nan'', ''naN'', ''nAn'', ''nAN'', ''Nan'', ''NaN'', ''NAn'', ''NAN'']"
proof -
  from assms obtain a b c where v: "value = [a, b, c]"
    and "to_lower a = CHR ''n''" "to_lower b = CHR ''a''" "to_lower c = CHR ''n''"
    by (auto simp: map_eq_Cons_conv)
  then have "a = CHR ''n'' \<or> a = CHR ''N''" "b = CHR ''a'' \<or> b = CHR ''A''"
    "c = CHR ''n'' \<or> c = CHR ''N''"
    by (auto dest: to_lower_n to_lower_a)
  then show ?thesis unfolding v by auto
qed

lemma py_float_nan_casings:
  "list_all (\<lambda>v. py_float v = Some NaN)
     [''nan'', ''naN'', ''nAn'', ''nAN'', ''Nan'', ''NaN'', ''NAn'', ''NAN'']"
  by code_simp

lemma py_float_nan:
  assumes "map to_lower value = ''nan''"
  shows "py_float value = Some NaN"
  using nan_casings[OF assms] py_float_nan_casings
  by (simp only: list_all_iff)

lemma nan_not_less: "\<not> fl_less NaN b \<and> \<not> fl_less b NaN"
  by (cases b) simp_all

lemma nan_accepted_by_name:
  assumes "name \<in> set field_order" and "py_float value = Some NaN"
  shows "parse_and_validate fstr IRIS_FEATURES name value = Inr NaN"
proof -
  from assms(1) obtain conf where "map_of IRIS_FEATURES name = Some conf"
    by (auto simp: field_order_def IRIS_FEATURES_def)
  then show ?thesis using assms(2) by (simp add: parse_and_validate_def)
qed

text \<open>
  Claim C10. The posted text \<^verbatim>\<open>nan\<close>, in any casing, parses to the float NaN; both
  comparisons of the range check are false on NaN, so validation accepts it for each
  of the four fields; and when the other fields are valid too, the model's
  \<^verbatim>\<open>predict\<close> is invoked once, on a row of four features of which one is NaN.
\<close>

theorem nan_passes_validation:
  assumes v: "map to_lower value = ''nan''" and name: "name \<in> set field_order"
  shows "py_float value = Some NaN \<and>
         (\<forall>b. \<not> (fl_less NaN b \<or> fl_less b NaN)) \<and>
         parse_and_validate fstr IRIS_FEATURES name value = Inr NaN \<and>
         (\<forall>req predict.
            req_method req = POST \<and> form_get (form req) name [] = value \<and>
            first_failure (validated fstr module_load req) = None \<longrightarrow>
              (\<exists>row. predict_calls (index fstr predict module_load req) = [[row]] \<and>
                     length row = 4 \<and> NaN \<in> set row))"
proof (intro conjI allI impI)
  show p: "py_float value = Some NaN" using v by (rule py_float_nan)
  show "\<not> (fl_less NaN b \<or> fl_less b NaN)" for b using nan_not_less[of b] by simp
  show ok: "parse_and_validate fstr IRIS_FEATURES name value = Inr NaN"
    using name p by (rule nan_accepted_by_name)
  fix req :: request and predict :: "pyfloat list list \<Rightarrow> exc + string list"
  assume a: "req_method req = POST \<and> form_get (form req) name [] = value \<and>
            first_failure (validated fstr module_load req) = None"
  then have post: "req_method req = POST" and fv: "form_get (form req) name [] = value"
    and none: "first_failure (validated fstr module_load req) = None" by simp_all
  from none have "\<exists>sl sw pl pw. validated fstr module_load req = [Inr sl, Inr sw, Inr pl, Inr pw]"
    unfolding validated_unfold by (rule first_failure_None)
  then obtain sl sw pl pw where vs: "validated fstr module_load req = [Inr sl, Inr sw, Inr pl, Inr pw]"
    by blast
  obtain i where i: "i < 4" and "validated fstr module_load req ! i =
      parse_and_validate fstr (g_features module_load) name (form_get (form req) name [])"
    using field_order_index[OF name, of fstr module_load req] by blast
  then have at: "[Inr sl, Inr sw, Inr pl, Inr pw] ! i = (Inr NaN :: exc + pyfloat)"
    using ok fv vs by (simp add: features_at_load)
  have mem: "NaN \<in> set [sl, sw, pl, pw]"
  proof -
    from i consider "i = 0" | "i = 1" | "i = 2" | "i = 3" by linarith
    then show ?thesis using at by cases simp_all
  qed
  have calls: "predict_calls (index fstr predict module_load req) = [[[sl, sw, pl, pw]]]"
    unfolding index_all_valid[OF post vs]
    by (simp add: failed_def split: sum.splits list.splits)
  show "\<exists>row. predict_calls (index fstr predict module_load req) = [[row]] \<and>
              length row = 4 \<and> NaN \<in> set row"
    using calls mem by (intro exI[of _ "[sl, sw, pl, pw]"]) simp
qed

theorem nan_passes_validation_witness:
  "map to_lower ''NaN'' = ''nan'' \<and> ''PetalLengthCm'' \<in> set field_order \<and>
   py_float ''NaN'' = Some NaN \<and>
   parse_and_validate example_float_str IRIS_FEATURES ''PetalLengthCm'' ''NaN'' = Inr NaN \<and>
   (\<exists>row. predict_calls (index example_float_str example_predict module_load
                            (request_of ''5.1'' ''3.5'' ''NaN'' ''0.2'')) = [[row]] \<and>
          length row = 4 \<and> NaN \<in> set row)"
proof -
  let ?r = "request_of ''5.1'' ''3.5'' ''NaN'' ''0.2''"
  have v: "map to_lower ''NaN'' = ''nan''" by code_simp
  have n: "''PetalLengthCm'' \<in> set field_order" by (simp add: field_order_def)
  have r: "req_method ?r = POST \<and> form_get (form ?r) ''PetalLengthCm'' [] = ''NaN'' \<and>
           first_failure (validated example_float_str module_load ?r) = None"
    by code_simp
  note t = nan_passes_validation[OF v n, of example_float_str]
  from t r have "\<exists>row. predict_calls (index example_float_str example_predict module_load ?r) = [[row]] \<and>
          length row = 4 \<and> NaN \<in> set row"
    by blast
  with t v n show ?thesis by blast
qed

lemma np_unique_sorted_distinct: "sorted (np_unique xs) \<and> distinct (np_unique xs) \<and> set (np_unique xs) = set xs"
  by (simp add: np_unique_def)

text \<open>
  When every predicted label occurs among the test labels, the class order of the
  matrix is the order of the tick labels.
\<close>

lemma unique_labels_when_predictions_known:
  assumes "set y_pred \<subseteq> set y_true"
  shows "unique_labels y_true y_pred = np_unique y_true"
proof -
  have "set (np_unique (y_true @ y_pred)) = set (np_unique y_true)"
    using assms by (auto simp: np_unique_def)
  then show ?thesis
    unfolding unique_labels_def
    using np_unique_sorted_distinct[of "y_true @ y_pred"] np_unique_sorted_distinct[of y_true]
    by (intro sorted_distinct_set_unique) simp_all
qed

text \<open>
  Claim C8. The claim takes the class order of the confusion matrix to be the
  sorted distinct labels of the test set, which is what the figure's tick labels
  are. The matrix itself is ordered by the sorted distinct labels of the test set
  and of the predictions together. On a test set with the labels Iris-setosa and
  Iris-virginica and a model that answers Iris-setosa and Iris-versicolor, the
  evaluator succeeds and persists a three by three matrix, in the order Iris-setosa,
  Iris-versicolor, Iris-virginica, under the two tick labels Iris-setosa and
  Iris-virginica: the row and column of Iris-versicolor carry the label
  Iris-virginica.
\<close>

theorem evaluate_model_mislabels_axes:
  "fst (evaluate_model example_metrics example_fmt4 example_world
          (init_ModelTraining example_clf) two_row_test_frame
          [''Iris-setosa'', ''Iris-virginica'']) = Inr () \<and>
   fs (snd (evaluate_model example_metrics example_fmt4 example_world
          (init_ModelTraining example_clf) two_row_test_frame
          [''Iris-setosa'', ''Iris-virginica'']))
      ''artifacts/models/confusion_matrix.png'' =
     Some (Figure \<lparr>matrix = [[1, 0, 0], [0, 0, 0], [0, 1, 0]],
                    xticklabels = [''Iris-setosa'', ''Iris-virginica''],
                    yticklabels = [''Iris-setosa'', ''Iris-virginica''],
                    title = ''Confusion Matrix'',
                    xlabel = ''Predicted Label'',
                    ylabel = ''Actual Label''\<rparr>) \<and>
   unique_labels [''Iris-setosa'', ''Iris-virginica''] [''Iris-setosa'', ''Iris-versicolor''] =
     [''Iris-setosa'', ''Iris-versicolor'', ''Iris-virginica'']"
  by code_simp

end
